theory Spec2Isabelle
  imports Main
begin

section \<open>JavaScript numbers\<close>

text \<open>
  A JavaScript number is an IEEE 754 double. The model covers the integer-valued doubles:
  an \<open>int\<close> stands for the double of that value, and the results of \<open>+\<close>, \<open>-\<close> and \<open>*\<close> are
  the exact results rounded to the nearest double, ties to even, as the language defines
  them. Integers of magnitude up to \<open>2^53 - 1\<close> (\<open>Number.MAX_SAFE_INTEGER\<close>) are doubles
  themselves; a larger integer is rounded to 53 significant bits. Numbers with a
  fractional part and results of magnitude \<open>2^1024\<close> or more (\<open>Infinity\<close>) are outside the
  model.
\<close>

definition MAX_SAFE_INTEGER :: int where
  "MAX_SAFE_INTEGER = 9007199254740991"

text \<open>\<open>Number.isSafeInteger\<close> on an integer.\<close>

definition isSafeInteger :: "int \<Rightarrow> bool" where
  "isSafeInteger n \<longleftrightarrow> \<bar>n\<bar> \<le> MAX_SAFE_INTEGER"

text \<open>The number of binary digits of a positive integer.\<close>

function bit_length :: "int \<Rightarrow> nat" where
  "bit_length n = (if n \<le> 0 then 0 else Suc (bit_length (n div 2)))"
  by pat_completeness auto
termination
  by (relation "measure nat") auto

declare bit_length.simps [simp del]

text \<open>
  The double nearest to an integer: with \<open>e\<close> the number of digits beyond the 53 kept,
  the kept digits \<open>q\<close> are rounded up when the dropped part \<open>r\<close> is more than half a unit,
  or exactly half and \<open>q\<close> is odd.
\<close>

definition to_double :: "int \<Rightarrow> int" where
  "to_double n =
     (if \<bar>n\<bar> \<le> MAX_SAFE_INTEGER then n
      else (let m = \<bar>n\<bar>;
                e = bit_length m - 53;
                q = m div 2 ^ e;
                r = m mod 2 ^ e;
                half = 2 ^ (e - 1);
                q' = (if r > half \<or> (r = half \<and> odd q) then q + 1 else q)
            in sgn n * (q' * 2 ^ e)))"

definition js_add :: "int \<Rightarrow> int \<Rightarrow> int" where
  "js_add a b = to_double (a + b)"

definition js_sub :: "int \<Rightarrow> int \<Rightarrow> int" where
  "js_sub a b = to_double (a - b)"

definition js_mul :: "int \<Rightarrow> int \<Rightarrow> int" where
  "js_mul a b = to_double (a * b)"

section \<open>Token service (src/services/token.service.js)\<close>

text \<open>The configuration object \<open>config.jwt\<close> is a record.\<close>

record jwt_config =
  secret :: string
  accessExpirationMinutes :: int

text \<open>
  \<open>jwt.sign\<close> belongs to the jsonwebtoken library. The model of \<open>generateToken\<close>
  returns the three arguments it hands to \<open>jwt.sign\<close>: the payload
  \<open>{ sub: userId, type }\<close>, the secret and the option \<open>{ expiresIn }\<close>.
\<close>

record sign_args =
  payload_sub :: string
  payload_type :: string
  sign_secret :: string
  expiresIn :: int

text \<open>
  \<open>dateNow\<close> is the value read from \<open>Date.now()\<close>, a whole number of milliseconds of
  magnitude at most 8,640,000,000,000,000. On such a value the double quotient by 1000
  followed by \<open>Math.floor\<close> is the integer quotient rounded down: the quotient lies below
  \<open>2^44\<close>, where doubles are less than 0.002 apart, and a quotient that is not whole is at
  least 0.001 away from the next whole number.
  The optional parameter \<open>secret\<close> defaults to \<open>config.jwt.secret\<close>.
\<close>

definition generateToken ::
  "jwt_config \<Rightarrow> int \<Rightarrow> string \<Rightarrow> int \<Rightarrow> string \<Rightarrow> string option \<Rightarrow> sign_args" where
  "generateToken config dateNow userId expires tokenType secret_arg =
     (let secret = (case secret_arg of None \<Rightarrow> jwt_config.secret config | Some s \<Rightarrow> s);
          expiresIn =
            (if expires > 1000000000
             then (let now = dateNow div 1000 in js_sub expires now)
             else js_mul expires 60)
      in \<lparr>payload_sub = userId, payload_type = tokenType,
          sign_secret = secret, expiresIn = expiresIn\<rparr>)"

section \<open>Cart service\<close>

subsection \<open>Data model\<close>

datatype http_status = NOT_FOUND | BAD_REQUEST | INTERNAL_SERVER_ERROR

record ApiError =
  statusCode :: http_status
  message :: string

text \<open>
  Documents. \<open>product_id\<close> is the product's \<open>_id\<close>; object ids are compared through
  their string form, as \<open>toString() ===\<close> and \<open>ObjectId.equals\<close> do on canonical ids.
  \<open>cart_id\<close> is the cart document's \<open>_id\<close>, \<open>cart_email\<close> its \<open>email\<close> field.
\<close>

record product =
  product_id :: string
  cost :: int

record cart_item =
  product :: product
  quantity :: int

record cart =
  cart_id :: nat
  cart_email :: string
  cartItems :: "cart_item list"

text \<open>
  The user entity. \<open>hasSetNonDefaultAddress\<close> holds the answer of the user's method of
  that name, which is declared on the user model outside this service.
\<close>

record user =
  email :: string
  walletMoney :: int
  hasSetNonDefaultAddress :: bool

text \<open>
  The database: the product collection, the cart collection (documents in insertion
  order) and whether \<open>Cart.create\<close> yields no document.
\<close>

record world =
  products :: "product list"
  carts :: "cart list"
  createFails :: bool

subsection \<open>Collaborators\<close>

text \<open>
  Modelled from the spec: \<open>getProductById\<close> of product.service, which is not part of
  the sources at hand, is a pure lookup by id returning the product or not-found.
\<close>

definition getProductById :: "world \<Rightarrow> string \<Rightarrow> product option" where
  "getProductById w pid = find (\<lambda>p. product_id p = pid) (products w)"

text \<open>\<open>Cart.findOne({ email })\<close>: the first cart document with that email, if any.\<close>

definition Cart_findOne :: "world \<Rightarrow> string \<Rightarrow> cart option" where
  "Cart_findOne w e = find (\<lambda>c. cart_email c = e) (carts w)"

definition fresh_id :: "cart list \<Rightarrow> nat" where
  "fresh_id cs = Suc (fold max (map cart_id cs) 0)"

text \<open>
  \<open>Cart.create({ email, cartItems })\<close> inserts a new document under a fresh \<open>_id\<close> and
  returns it, or returns nothing (the case the service checks with \<open>!createdCart\<close>).
\<close>

definition Cart_create :: "string \<Rightarrow> cart_item list \<Rightarrow> world \<Rightarrow> cart option \<times> world" where
  "Cart_create e its w =
     (if createFails w then (None, w)
      else (let c = \<lparr>cart_id = fresh_id (carts w), cart_email = e, cartItems = its\<rparr>
            in (Some c, w\<lparr>carts := carts w @ [c]\<rparr>)))"

text \<open>\<open>cart.save()\<close> writes the document back over the stored one with the same \<open>_id\<close>.\<close>

definition Cart_save :: "cart \<Rightarrow> world \<Rightarrow> world" where
  "Cart_save c w = w\<lparr>carts := map (\<lambda>d. if cart_id d = cart_id c then c else d) (carts w)\<rparr>"

subsection \<open>Array helpers\<close>

text \<open>\<open>Array.prototype.findIndex\<close>: the index of the first element satisfying the
  predicate, or \<open>-1\<close>.\<close>

fun findIndex :: "('a \<Rightarrow> bool) \<Rightarrow> 'a list \<Rightarrow> int" where
  "findIndex P [] = - 1"
| "findIndex P (x # xs) =
     (if P x then 0
      else (let i = findIndex P xs in if i = - 1 then - 1 else i + 1))"

text \<open>\<open>Array.prototype.splice(start, deleteCount)\<close> for a start index that is not
  negative: the elements from \<open>start\<close> on, \<open>deleteCount\<close> of them, are removed.\<close>

definition splice :: "nat \<Rightarrow> nat \<Rightarrow> 'a list \<Rightarrow> 'a list" where
  "splice start deleteCount xs = take start xs @ drop (start + deleteCount) xs"

subsection \<open>Service operations\<close>

text \<open>
  Every operation takes the database and returns its outcome (\<open>Inl\<close> the thrown
  \<open>ApiError\<close>, \<open>Inr\<close> the returned value) together with the database it leaves.
\<close>

definition getCartByUser :: "user \<Rightarrow> world \<Rightarrow> (ApiError + cart) \<times> world" where
  "getCartByUser user w =
     (case Cart_findOne w (email user) of
        None \<Rightarrow> (Inl \<lparr>statusCode = NOT_FOUND, message = ''User does not have a cart''\<rparr>, w)
      | Some cart \<Rightarrow> (Inr cart, w))"

text \<open>
  In \<open>addProductToCart\<close> the callback of \<open>findIndex\<close> reads \<open>item.product._id\<close> when the
  stored product has one, which every product document has; the comparison is on the
  string forms of the two ids.
\<close>

definition addProductToCart ::
  "user \<Rightarrow> string \<Rightarrow> int \<Rightarrow> world \<Rightarrow> (ApiError + cart) \<times> world" where
  "addProductToCart user productId qty w =
     (let found = Cart_findOne w (email user) in
      case getProductById w productId of
        None \<Rightarrow>
          (Inl \<lparr>statusCode = BAD_REQUEST,
                message = ''Product doesn't exist in database''\<rparr>, w)
      | Some product' \<Rightarrow>
          (case found of
             None \<Rightarrow>
               (case Cart_create (email user) [\<lparr>product = product', quantity = qty\<rparr>] w of
                  (None, w') \<Rightarrow>
                    (Inl \<lparr>statusCode = INTERNAL_SERVER_ERROR,
                          message = ''Failed to add product to cart''\<rparr>, w')
                | (Some createdCart, w') \<Rightarrow> (Inr createdCart, w'))
           | Some cart \<Rightarrow>
               (let productInCart =
                      findIndex (\<lambda>item. product_id (product item) = product_id product')
                        (cartItems cart)
                in if productInCart > - 1
                   then (Inl \<lparr>statusCode = BAD_REQUEST,
                               message = ''Product already in cart. Use the cart sidebar to update or remove product from cart''\<rparr>, w)
                   else (let cart' = cart\<lparr>cartItems :=
                                       cartItems cart @ [\<lparr>product = product', quantity = qty\<rparr>]\<rparr>
                         in (Inr cart', Cart_save cart' w)))))"

definition updateProductInCart ::
  "user \<Rightarrow> string \<Rightarrow> int \<Rightarrow> world \<Rightarrow> (ApiError + cart) \<times> world" where
  "updateProductInCart user productId qty w =
     (case Cart_findOne w (email user) of
        None \<Rightarrow>
          (Inl \<lparr>statusCode = BAD_REQUEST,
                message = ''User does not have a cart. Use POST to create cart and add a product''\<rparr>, w)
      | Some cart \<Rightarrow>
          (case getProductById w productId of
             None \<Rightarrow>
               (Inl \<lparr>statusCode = BAD_REQUEST,
                     message = ''Product doesn't exist in database''\<rparr>, w)
           | Some product' \<Rightarrow>
               (let productIndex =
                      findIndex (\<lambda>item. product_id (product item) = product_id product')
                        (cartItems cart)
                in if productIndex = - 1
                   then (Inl \<lparr>statusCode = BAD_REQUEST, message = ''Product not in cart''\<rparr>, w)
                   else (let i = nat productIndex;
                             cart' = cart\<lparr>cartItems :=
                                       (cartItems cart)[i := (cartItems cart ! i)\<lparr>quantity := qty\<rparr>]\<rparr>
                         in (Inr cart', Cart_save cart' w)))))"

definition deleteProductFromCart ::
  "user \<Rightarrow> string \<Rightarrow> world \<Rightarrow> (ApiError + cart) \<times> world" where
  "deleteProductFromCart user productId w =
     (case Cart_findOne w (email user) of
        None \<Rightarrow>
          (Inl \<lparr>statusCode = BAD_REQUEST, message = ''User does not have a cart''\<rparr>, w)
      | Some cart \<Rightarrow>
          (let productIndex =
                 findIndex (\<lambda>item. product_id (product item) = productId) (cartItems cart)
           in if productIndex = - 1
              then (Inl \<lparr>statusCode = BAD_REQUEST, message = ''Product not in cart''\<rparr>, w)
              else (let cart' = cart\<lparr>cartItems := splice (nat productIndex) 1 (cartItems cart)\<rparr>
                    in (Inr cart', Cart_save cart' w))))"

text \<open>
  \<open>checkout\<close> changes the user object it is given, so it returns the user as well. It calls
  \<open>user.save()\<close> and \<open>cart.save()\<close> without \<open>await\<close>: when it returns, the two writes have been
  started, in this order, and the database is as it was. The model returns that database
  and the started writes with the documents they carry.
\<close>

datatype pending_save = SaveUser user | SaveCart cart

text \<open>
  The database once started writes have completed. The user collection is not part of
  \<open>world\<close>; the user document written is the one the write carries.
\<close>

definition complete_saves :: "pending_save list \<Rightarrow> world \<Rightarrow> world" where
  "complete_saves ps w =
     foldl (\<lambda>w' p. case p of SaveUser u \<Rightarrow> w' | SaveCart c \<Rightarrow> Cart_save c w') w ps"

definition checkout ::
  "user \<Rightarrow> world \<Rightarrow> (ApiError + unit) \<times> user \<times> world \<times> pending_save list" where
  "checkout user w =
     (case Cart_findOne w (email user) of
        None \<Rightarrow> (Inl \<lparr>statusCode = NOT_FOUND, message = ''Cart not found''\<rparr>, user, w, [])
      | Some cart \<Rightarrow>
          if length (cartItems cart) = 0
          then (Inl \<lparr>statusCode = BAD_REQUEST, message = ''Cart is Empty''\<rparr>, user, w, [])
          else if \<not> hasSetNonDefaultAddress user
          then (Inl \<lparr>statusCode = BAD_REQUEST,
                      message = ''Please set the default address''\<rparr>, user, w, [])
          else (let totalCartValue =
                      foldl (\<lambda>sum item. js_add sum (js_mul (cost (product item)) (quantity item))) 0
                        (cartItems cart)
                in if totalCartValue > walletMoney user
                   then (Inl \<lparr>statusCode = BAD_REQUEST,
                               message = ''Insuffiecient Balance.''\<rparr>, user, w, [])
                   else (let user' = user\<lparr>walletMoney := js_sub (walletMoney user) totalCartValue\<rparr>;
                             cart' = cart\<lparr>cartItems := []\<rparr>
                         in (Inr (), user', w, [SaveUser user', SaveCart cart']))))"

subsection \<open>The cart total in the words of the specification\<close>

text \<open>
  The specification's total cost: the exact sum over the cart items of the stored
  product's cost times the quantity. \<open>checkout\<close> computes its total with \<open>reduce\<close> from \<open>0\<close> in
  double arithmetic; lemma \<open>reduce_total\<close> below relates the two.
\<close>

definition cart_total :: "cart_item list \<Rightarrow> int" where
  "cart_total its = sum_list (map (\<lambda>item. cost (product item) * quantity item) its)"

text \<open>
  The amounts of a checkout are safe when the balance, every cost and every quantity are
  safe integers and so is the sum of the magnitudes of the items' costs times quantities.
  Then every product and every partial sum of the total is a safe integer.
\<close>

definition cart_magnitude :: "cart_item list \<Rightarrow> int" where
  "cart_magnitude its = sum_list (map (\<lambda>item. \<bar>cost (product item) * quantity item\<bar>) its)"

definition safe_amounts :: "user \<Rightarrow> cart_item list \<Rightarrow> bool" where
  "safe_amounts user its \<longleftrightarrow>
     isSafeInteger (walletMoney user)
   \<and> list_all (\<lambda>item. isSafeInteger (cost (product item)) \<and> isSafeInteger (quantity item)) its
   \<and> isSafeInteger (cart_magnitude its)"

subsection \<open>Concrete data of the scenarios\<close>

abbreviation P1 :: product where
  "P1 \<equiv> \<lparr>product_id = ''p1'', cost = 10\<rparr>"

abbreviation P2 :: product where
  "P2 \<equiv> \<lparr>product_id = ''p2'', cost = 5\<rparr>"

abbreviation demo_config :: jwt_config where
  "demo_config \<equiv> \<lparr>secret = ''s3cret'', accessExpirationMinutes = 240\<rparr>"

abbreviation demo_user :: user where
  "demo_user \<equiv> \<lparr>email = ''user@example.com'', walletMoney = 100, hasSetNonDefaultAddress = True\<rparr>"

abbreviation demo_cart :: cart where
  "demo_cart \<equiv> \<lparr>cart_id = 1, cart_email = ''user@example.com'',
     cartItems = [\<lparr>product = P1, quantity = 2\<rparr>, \<lparr>product = P2, quantity = 1\<rparr>]\<rparr>"

abbreviation big_cart :: cart where
  "big_cart \<equiv> \<lparr>cart_id = 1, cart_email = ''user@example.com'',
     cartItems = [\<lparr>product = \<lparr>product_id = ''p3'', cost = 9007199254740991\<rparr>, quantity = 3\<rparr>]\<rparr>"

abbreviation demo_world :: world where
  "demo_world \<equiv> \<lparr>products = [P1, P2], carts = [demo_cart], createFails = False\<rparr>"

section \<open>Auxiliary facts\<close>

lemma findIndex_ge: "- 1 \<le> findIndex P xs"
  by (induction xs) (auto simp: Let_def)

lemma findIndex_none: "findIndex P xs = - 1 \<longleftrightarrow> (\<forall>x\<in>set xs. \<not> P x)"
proof (induction xs)
  case Nil
  show ?case by simp
next
  case (Cons a xs)
  have "- 1 \<le> findIndex P xs" by (rule findIndex_ge)
  with Cons show ?case by (auto simp: Let_def)
qed

lemma findIndex_append:
  "(\<forall>y\<in>set pre. \<not> P y) \<Longrightarrow> P x \<Longrightarrow> findIndex P (pre @ x # post) = int (length pre)"
  by (induction pre) (auto simp: Let_def)

lemma findIndex_found: "P x \<Longrightarrow> x \<in> set xs \<Longrightarrow> findIndex P xs > - 1"
  using findIndex_none[of P xs] findIndex_ge[of P xs] by force

lemma first_match_split:
  "\<exists>x\<in>set xs. P x \<Longrightarrow> \<exists>pre x post. xs = pre @ x # post \<and> (\<forall>y\<in>set pre. \<not> P y) \<and> P x"
  by (metis split_list_first_prop)

lemma to_double_safe: "isSafeInteger n \<Longrightarrow> to_double n = n"
  by (simp add: to_double_def isSafeInteger_def)

lemma bit_length_lower: "0 < n \<Longrightarrow> 2 ^ (bit_length n - 1) \<le> n"
proof (induction n rule: bit_length.induct)
  case (1 n)
  from "1.prems" have unfold: "bit_length n = Suc (bit_length (n div 2))"
    by (subst bit_length.simps) simp
  show ?case
  proof (cases "n div 2 \<le> 0")
    case True
    then have "bit_length (n div 2) = 0" by (subst bit_length.simps) simp
    with unfold "1.prems" show ?thesis by simp
  next
    case False
    then have half: "0 < n div 2" by simp
    then have "bit_length (n div 2) = Suc (bit_length (n div 2 div 2))"
      by (subst bit_length.simps) simp
    then have "2 ^ bit_length (n div 2) = 2 * (2::int) ^ (bit_length (n div 2) - 1)"
      by simp
    also have "\<dots> \<le> 2 * (n div 2)"
      using "1.IH" "1.prems" half by simp
    also have "\<dots> \<le> n" by simp
    finally show ?thesis using unfold by simp
  qed
qed

lemma to_double_pos: "0 < to_double n \<longleftrightarrow> 0 < n"
proof (cases "\<bar>n\<bar> \<le> MAX_SAFE_INTEGER")
  case True
  then show ?thesis by (simp add: to_double_def)
next
  case False
  define m where "m = \<bar>n\<bar>"
  define e where "e = bit_length m - 53"
  define q where "q = m div 2 ^ e"
  define q' where "q' = (if m mod 2 ^ e > 2 ^ (e - 1) \<or> (m mod 2 ^ e = 2 ^ (e - 1) \<and> odd q)
                         then q + 1 else q)"
  from False have mpos: "0 < m" by (simp add: m_def MAX_SAFE_INTEGER_def)
  then have low: "2 ^ (bit_length m - 1) \<le> m" by (rule bit_length_lower)
  have step: "(2::int) ^ e \<le> 2 ^ (bit_length m - 1)"
    unfolding e_def by (rule power_increasing) simp_all
  from step low have le: "(2::int) ^ e \<le> m" by (rule order_trans)
  have "0 < q" unfolding q_def using le by (simp add: pos_imp_zdiv_pos_iff)
  then have "0 < q'" by (simp add: q'_def)
  then have scale: "0 < q' * 2 ^ e" by simp
  have val: "to_double n = sgn n * (q' * 2 ^ e)"
    using False by (simp add: to_double_def Let_def m_def e_def q_def q'_def)
  show ?thesis
  proof (cases "0 < n")
    case True
    with scale val show ?thesis by simp
  next
    case neg: False
    with mpos have "n < 0" by (simp add: m_def)
    with scale val have "to_double n < 0" by (simp add: mult_pos_pos)
    with neg show ?thesis by simp
  qed
qed

lemma reduce_total:
  "\<bar>a\<bar> + cart_magnitude its \<le> MAX_SAFE_INTEGER \<Longrightarrow>
   foldl (\<lambda>sum item. js_add sum (js_mul (cost (product item)) (quantity item))) a its
     = a + cart_total its"
proof (induction its arbitrary: a)
  case Nil
  show ?case by (simp add: cart_total_def)
next
  case (Cons x xs)
  let ?p = "cost (product x) * quantity x"
  have mag: "cart_magnitude (x # xs) = \<bar>?p\<bar> + cart_magnitude xs"
    by (simp add: cart_magnitude_def)
  have nonneg: "0 \<le> cart_magnitude xs"
    unfolding cart_magnitude_def by (rule sum_list_nonneg) auto
  from Cons.prems mag nonneg have "\<bar>?p\<bar> \<le> MAX_SAFE_INTEGER" by simp
  then have mul: "js_mul (cost (product x)) (quantity x) = ?p"
    by (simp add: js_mul_def to_double_safe isSafeInteger_def)
  from Cons.prems mag nonneg have "\<bar>a + ?p\<bar> \<le> MAX_SAFE_INTEGER" by simp
  then have add: "js_add a ?p = a + ?p"
    by (simp add: js_add_def to_double_safe isSafeInteger_def)
  from Cons.prems mag have "\<bar>a + ?p\<bar> + cart_magnitude xs \<le> MAX_SAFE_INTEGER" by simp
  from Cons.IH[OF this] mul add show ?case by (simp add: cart_total_def)
qed

lemma checkout_total:
  assumes "safe_amounts user its"
  shows "foldl (\<lambda>sum item. js_add sum (js_mul (cost (product item)) (quantity item))) 0 its
           = cart_total its"
proof -
  from assms have "\<bar>cart_magnitude its\<bar> \<le> MAX_SAFE_INTEGER"
    by (simp add: safe_amounts_def isSafeInteger_def)
  then have "cart_magnitude its \<le> MAX_SAFE_INTEGER" by arith
  then have "\<bar>0\<bar> + cart_magnitude its \<le> MAX_SAFE_INTEGER" by simp
  from reduce_total[OF this] show ?thesis by simp
qed

lemma find_holds: "find P xs = Some x \<Longrightarrow> P x"
  by (induction xs) (auto split: if_splits)

lemma find_snoc: "find P xs = None \<Longrightarrow> find P (xs @ [x]) = (if P x then Some x else None)"
  by (induction xs) (auto split: if_splits)

lemma Cart_findOne_email: "Cart_findOne w e = Some c \<Longrightarrow> cart_email c = e"
  unfolding Cart_findOne_def by (drule find_holds) simp

lemma find_after_save:
  "find (\<lambda>d. cart_email d = e) cs = Some c \<Longrightarrow> cart_email c' = e \<Longrightarrow> cart_id c' = cart_id c \<Longrightarrow>
   find (\<lambda>d. cart_email d = e) (map (\<lambda>d. if cart_id d = cart_id c' then c' else d) cs) = Some c'"
  by (induction cs) (auto split: if_splits)

lemma Cart_findOne_save:
  "Cart_findOne w e = Some c \<Longrightarrow> cart_email c' = cart_email c \<Longrightarrow> cart_id c' = cart_id c \<Longrightarrow>
   Cart_findOne (Cart_save c' w) e = Some c'"
  using find_after_save[of e "carts w" c c'] Cart_findOne_email[of w e c]
  by (simp add: Cart_findOne_def Cart_save_def)

lemma Cart_save_ids: "map cart_id (carts (Cart_save c w)) = map cart_id (carts w)"
  by (simp add: Cart_save_def)

lemma getProductById_id: "getProductById w pid = Some p \<Longrightarrow> product_id p = pid"
  unfolding getProductById_def by (drule find_holds) simp

section \<open>Token expiry\<close>

text \<open>
  C1, as the claim reads, fails: the lifetime handed to the signer is computed in double
  arithmetic. For the safe integer \<open>-9007199254740989\<close>, taken as minutes, it is
  \<open>-540431955284459328\<close> and not the product by 60, \<open>-540431955284459340\<close>; for the
  timestamp \<open>2^60\<close> at the clock \<open>1700000001\<close> it is \<open>1152921502906846976\<close> and not the
  difference \<open>1152921502906846975\<close>.
\<close>

theorem generateToken_expiresIn_counterexample:
  "isSafeInteger (- 9007199254740989)
 \<and> expiresIn (generateToken demo_config 1700000000999 ''u1'' (- 9007199254740989) ''access'' None)
     = - 540431955284459328
 \<and> (- 9007199254740989) * 60 = (- 540431955284459340 :: int)
 \<and> expiresIn (generateToken demo_config 1700000001999 ''u1'' 1152921504606846976 ''access'' None)
     = 1152921502906846976
 \<and> 1152921504606846976 - 1700000001999 div 1000 = (1152921502906846975 :: int)"
  by code_simp

text \<open>
  C1, amended. For every call of \<open>generateToken\<close> whose expiry argument and clock reading
  are safe integers (magnitude at most \<open>2^53 - 1\<close>): when the argument is strictly greater
  than 1,000,000,000 and the argument minus the current Unix time in seconds is a safe
  integer, the lifetime in seconds handed to the signer is that difference (it may be zero
  or negative); when the argument is at most 1,000,000,000 and the argument times 60 is a
  safe integer, the lifetime is that product.
\<close>

theorem generateToken_expiresIn:
  assumes "isSafeInteger expires"
    and "isSafeInteger dateNow"
    and "isSafeInteger (if expires > 1000000000 then expires - dateNow div 1000 else expires * 60)"
  shows "expiresIn (generateToken config dateNow userId expires tokenType secret_arg) =
           (if expires > 1000000000 then expires - dateNow div 1000 else expires * 60)"
  using assms(3)
  by (simp add: generateToken_def Let_def js_sub_def js_mul_def to_double_safe split: if_splits)

theorem generateToken_expiresIn_witness:
  "expiresIn (generateToken demo_config 1700000000999 ''u1'' 1700003600 ''access'' None) = 3600
 \<and> expiresIn (generateToken demo_config 1700000000999 ''u1'' 240 ''access'' None) = 14400
 \<and> expiresIn (generateToken demo_config 1700000000999 ''u1'' 1000000000 ''access'' None) = 60000000000"
proof -
  have s1: "isSafeInteger 1700003600" and s2: "isSafeInteger 240" and s3: "isSafeInteger 1000000000"
    and clock: "isSafeInteger 1700000000999"
    by (simp_all add: isSafeInteger_def MAX_SAFE_INTEGER_def)
  have r1: "isSafeInteger (if (1700003600::int) > 1000000000
                           then 1700003600 - 1700000000999 div 1000 else 1700003600 * 60)"
    by (simp add: isSafeInteger_def MAX_SAFE_INTEGER_def)
  have r2: "isSafeInteger (if (240::int) > 1000000000
                           then 240 - 1700000000999 div 1000 else 240 * 60)"
    by (simp add: isSafeInteger_def MAX_SAFE_INTEGER_def)
  have r3: "isSafeInteger (if (1000000000::int) > 1000000000
                           then 1000000000 - 1700000000999 div 1000 else 1000000000 * 60)"
    by (simp add: isSafeInteger_def MAX_SAFE_INTEGER_def)
  show ?thesis
    using generateToken_expiresIn [OF s1 clock r1, of demo_config "''u1''" "''access''" None]
          generateToken_expiresIn [OF s2 clock r2, of demo_config "''u1''" "''access''" None]
          generateToken_expiresIn [OF s3 clock r3, of demo_config "''u1''" "''access''" None]
    by simp
qed

text \<open>
  C4, as the claim reads, fails: a token's lifetime is not strictly positive for every expiry
  argument. A minute count of \<open>0\<close> gives the lifetime \<open>0\<close>, and a timestamp above 1,000,000,000
  that lies in the past gives a negative lifetime.
\<close>

theorem generateToken_lifetime_counterexample:
  "\<not> 0 < expiresIn (generateToken demo_config 1700000000999 ''u1'' 0 ''access'' None)
 \<and> expiresIn (generateToken demo_config 1700000000999 ''u1'' 0 ''access'' None) = 0
 \<and> expiresIn (generateToken demo_config 1700000000999 ''u1'' 1600000000 ''access'' None) = - 100000000"
  by (simp add: generateToken_def Let_def js_mul_def js_sub_def to_double_def MAX_SAFE_INTEGER_def)

text \<open>
  C4, amended. The lifetime in seconds handed to the signer is strictly positive exactly
  when the expiry argument is a timestamp above 1,000,000,000 that is strictly later than
  the current Unix time in seconds, or a minute count at most 1,000,000,000 that is
  strictly positive.
\<close>

theorem generateToken_lifetime_positive_iff:
  "0 < expiresIn (generateToken config dateNow userId expires tokenType secret_arg) \<longleftrightarrow>
     (if expires > 1000000000 then dateNow div 1000 < expires else 0 < expires)"
  by (simp add: generateToken_def Let_def js_sub_def js_mul_def to_double_pos)

theorem generateToken_lifetime_positive_witness:
  "0 < expiresIn (generateToken demo_config 1700000000999 ''u1'' 240 ''access'' None)
 \<and> \<not> 0 < expiresIn (generateToken demo_config 1700000000999 ''u1'' 1600000000 ''access'' None)"
  using generateToken_lifetime_positive_iff [of demo_config 1700000000999 "''u1''" 240 "''access''" None]
        generateToken_lifetime_positive_iff [of demo_config 1700000000999 "''u1''" 1600000000 "''access''" None]
  by simp

section \<open>Checkout\<close>

text \<open>
  C2, as the claim reads, fails twice. In the scenario of the specification with a wallet
  of 20 the error thrown carries the message \<open>Insuffiecient Balance.\<close>, which is not
  \<open>Insufficient balance\<close>. And the total that is compared is the double total: for one item
  of cost \<open>9007199254740991\<close> and quantity 3 and a wallet of \<open>27021597764222972\<close>, the sum of
  cost times quantity, \<open>27021597764222973\<close>, exceeds the wallet, yet \<open>checkout\<close> returns
  normally.
\<close>

theorem checkout_insufficient_message_counterexample:
  "Cart_findOne demo_world (email (demo_user\<lparr>walletMoney := 20\<rparr>)) = Some demo_cart
 \<and> cartItems demo_cart \<noteq> []
 \<and> hasSetNonDefaultAddress (demo_user\<lparr>walletMoney := 20\<rparr>)
 \<and> walletMoney (demo_user\<lparr>walletMoney := 20\<rparr>) < cart_total (cartItems demo_cart)
 \<and> fst (checkout (demo_user\<lparr>walletMoney := 20\<rparr>) demo_world)
      = Inl \<lparr>statusCode = BAD_REQUEST, message = ''Insuffiecient Balance.''\<rparr>
 \<and> fst (checkout (demo_user\<lparr>walletMoney := 20\<rparr>) demo_world)
      \<noteq> Inl \<lparr>statusCode = BAD_REQUEST, message = ''Insufficient balance''\<rparr>
 \<and> Cart_findOne (demo_world\<lparr>carts := [big_cart]\<rparr>)
      (email (demo_user\<lparr>walletMoney := 27021597764222972\<rparr>)) = Some big_cart
 \<and> walletMoney (demo_user\<lparr>walletMoney := 27021597764222972\<rparr>) < cart_total (cartItems big_cart)
 \<and> fst (checkout (demo_user\<lparr>walletMoney := 27021597764222972\<rparr>) (demo_world\<lparr>carts := [big_cart]\<rparr>))
      = Inr ()"
  by code_simp

text \<open>
  C2, amended. For every user whose cart exists and is not empty, who has a non-default
  address set, and whose amounts are safe (the balance, the costs and the quantities are
  safe integers, and so is the sum of the magnitudes of cost times quantity): if the cart
  total (the sum of stored product cost times quantity) exceeds the wallet balance,
  \<open>checkout\<close> fails with an \<open>ApiError\<close> of status \<open>BAD_REQUEST\<close>, no write is started, and the
  user and the database, hence the wallet balance and the cart's items, are unchanged; if
  the total is at most the balance, the check passes and \<open>checkout\<close> returns normally.
\<close>

theorem checkout_insufficient_balance:
  assumes "Cart_findOne w (email user) = Some cart"
    and "cartItems cart \<noteq> []"
    and "hasSetNonDefaultAddress user"
    and "safe_amounts user (cartItems cart)"
  shows "(walletMoney user < cart_total (cartItems cart) \<longrightarrow>
            (\<exists>e. checkout user w = (Inl e, user, w, []) \<and> statusCode e = BAD_REQUEST))
       \<and> (cart_total (cartItems cart) \<le> walletMoney user \<longrightarrow>
            (\<exists>user' w' ps. checkout user w = (Inr (), user', w', ps)))"
  using assms(1-3) checkout_total[OF assms(4)] by (simp add: checkout_def Let_def)

theorem checkout_insufficient_balance_witness:
  "(\<exists>e. checkout (demo_user\<lparr>walletMoney := 20\<rparr>) demo_world
          = (Inl e, demo_user\<lparr>walletMoney := 20\<rparr>, demo_world, [])
        \<and> statusCode e = BAD_REQUEST)
 \<and> (\<exists>user' w' ps. checkout (demo_user\<lparr>walletMoney := 25\<rparr>) demo_world = (Inr (), user', w', ps))"
proof -
  have found: "Cart_findOne demo_world (email (demo_user\<lparr>walletMoney := v\<rparr>)) = Some demo_cart" for v
    by (simp add: Cart_findOne_def)
  have nonempty: "cartItems demo_cart \<noteq> []" by simp
  have addr: "hasSetNonDefaultAddress (demo_user\<lparr>walletMoney := v\<rparr>)" for v by simp
  have safe20: "safe_amounts (demo_user\<lparr>walletMoney := 20\<rparr>) (cartItems demo_cart)"
    by (simp add: safe_amounts_def isSafeInteger_def MAX_SAFE_INTEGER_def cart_magnitude_def)
  have safe25: "safe_amounts (demo_user\<lparr>walletMoney := 25\<rparr>) (cartItems demo_cart)"
    by (simp add: safe_amounts_def isSafeInteger_def MAX_SAFE_INTEGER_def cart_magnitude_def)
  have total: "cart_total (cartItems demo_cart) = 25" by (simp add: cart_total_def)
  from checkout_insufficient_balance [OF found nonempty addr safe20]
  have short: "\<exists>e. checkout (demo_user\<lparr>walletMoney := 20\<rparr>) demo_world
          = (Inl e, demo_user\<lparr>walletMoney := 20\<rparr>, demo_world, [])
        \<and> statusCode e = BAD_REQUEST"
    using total by simp
  from checkout_insufficient_balance [OF found nonempty addr safe25]
  have "\<exists>user' w' ps. checkout (demo_user\<lparr>walletMoney := 25\<rparr>) demo_world = (Inr (), user', w', ps)"
    using total by simp
  with short show ?thesis by (rule conjI)
qed

text \<open>
  C3, as the claim reads, fails: the wallet is debited in double arithmetic. For one item of
  cost \<open>9007199254740991\<close> and quantity 3 and a wallet of \<open>27021597764222976\<close>, which is at
  least the total \<open>27021597764222973\<close>, \<open>checkout\<close> succeeds and leaves a wallet of 4, where a
  decrease by exactly the total would leave 3.
\<close>

theorem checkout_success_counterexample:
  "Cart_findOne (demo_world\<lparr>carts := [big_cart]\<rparr>)
      (email (demo_user\<lparr>walletMoney := 27021597764222976\<rparr>)) = Some big_cart
 \<and> cartItems big_cart \<noteq> []
 \<and> hasSetNonDefaultAddress (demo_user\<lparr>walletMoney := 27021597764222976\<rparr>)
 \<and> cart_total (cartItems big_cart) \<le> walletMoney (demo_user\<lparr>walletMoney := 27021597764222976\<rparr>)
 \<and> fst (checkout (demo_user\<lparr>walletMoney := 27021597764222976\<rparr>) (demo_world\<lparr>carts := [big_cart]\<rparr>))
      = Inr ()
 \<and> walletMoney (fst (snd (checkout (demo_user\<lparr>walletMoney := 27021597764222976\<rparr>)
      (demo_world\<lparr>carts := [big_cart]\<rparr>)))) = 4
 \<and> walletMoney (demo_user\<lparr>walletMoney := 27021597764222976\<rparr>) - cart_total (cartItems big_cart) = 3"
  by code_simp

text \<open>
  C3, amended. For every user whose cart exists and is not empty, who has a non-default
  address set, whose amounts are safe (the balance, the costs and the quantities are safe
  integers, and so are the sum of the magnitudes of cost times quantity and the balance
  minus the cart total) and whose wallet balance is at least the cart total: \<open>checkout\<close>
  succeeds, the user's wallet balance decreases by exactly the cart total before checkout,
  and the writes it starts are the save of that user and the save of the cart with an
  empty item sequence, so that the stored cart, found under the user's email, has no items
  once they complete. The witness is the scenario of the specification: the cart
  \<open>[{cost 10, qty 2}, {cost 5, qty 1}]\<close> and a wallet of 100 give a wallet of 75 and no items.
\<close>

theorem checkout_success:
  assumes "Cart_findOne w (email user) = Some cart"
    and "cartItems cart \<noteq> []"
    and "hasSetNonDefaultAddress user"
    and "safe_amounts user (cartItems cart)"
    and "isSafeInteger (walletMoney user - cart_total (cartItems cart))"
    and "cart_total (cartItems cart) \<le> walletMoney user"
  shows "\<exists>w' ps.
           checkout user w =
             (Inr (), user\<lparr>walletMoney := walletMoney user - cart_total (cartItems cart)\<rparr>, w', ps)
         \<and> ps = [SaveUser (user\<lparr>walletMoney := walletMoney user - cart_total (cartItems cart)\<rparr>),
                 SaveCart (cart\<lparr>cartItems := []\<rparr>)]
         \<and> Cart_findOne (complete_saves ps w') (email user) = Some (cart\<lparr>cartItems := []\<rparr>)"
proof -
  let ?u = "user\<lparr>walletMoney := walletMoney user - cart_total (cartItems cart)\<rparr>"
  let ?c = "cart\<lparr>cartItems := []\<rparr>"
  have debit: "js_sub (walletMoney user) (cart_total (cartItems cart))
                 = walletMoney user - cart_total (cartItems cart)"
    using assms(5) by (simp add: js_sub_def to_double_safe)
  have run: "checkout user w = (Inr (), ?u, w, [SaveUser ?u, SaveCart ?c])"
    using assms(1-3,6) checkout_total[OF assms(4)] debit by (simp add: checkout_def Let_def)
  have "Cart_findOne (Cart_save ?c w) (email user) = Some ?c"
    using assms(1) by (intro Cart_findOne_save) simp_all
  then have "Cart_findOne (complete_saves [SaveUser ?u, SaveCart ?c] w) (email user) = Some ?c"
    by (simp add: complete_saves_def)
  with run show ?thesis by blast
qed

theorem checkout_success_witness:
  "\<exists>w' ps.
     checkout demo_user demo_world = (Inr (), demo_user\<lparr>walletMoney := 75\<rparr>, w', ps)
   \<and> ps = [SaveUser (demo_user\<lparr>walletMoney := 75\<rparr>), SaveCart (demo_cart\<lparr>cartItems := []\<rparr>)]
   \<and> Cart_findOne (complete_saves ps w') (email demo_user) = Some (demo_cart\<lparr>cartItems := []\<rparr>)"
proof -
  have found: "Cart_findOne demo_world (email demo_user) = Some demo_cart"
    by (simp add: Cart_findOne_def)
  have nonempty: "cartItems demo_cart \<noteq> []" by simp
  have addr: "hasSetNonDefaultAddress demo_user" by simp
  have safe: "safe_amounts demo_user (cartItems demo_cart)"
    by (simp add: safe_amounts_def isSafeInteger_def MAX_SAFE_INTEGER_def cart_magnitude_def)
  have total: "cart_total (cartItems demo_cart) = 25" by (simp add: cart_total_def)
  have rest: "isSafeInteger (walletMoney demo_user - cart_total (cartItems demo_cart))"
    by (simp add: cart_total_def isSafeInteger_def MAX_SAFE_INTEGER_def)
  have enough: "cart_total (cartItems demo_cart) \<le> walletMoney demo_user"
    by (simp add: cart_total_def)
  from checkout_success [OF found nonempty addr safe rest enough] show ?thesis
    using total by simp
qed

section \<open>Adding a product\<close>

text \<open>
  C5. For every user, quantity and product id that the catalog lookup does not resolve,
  \<open>addProductToCart\<close> fails with the \<open>BAD_REQUEST\<close> error \<open>Product doesn't exist in database\<close>
  and leaves the database as it was, whatever the cart collection holds: no cart of the
  user, a cart without the product, or a cart with it (the three cases of the witness).
\<close>

theorem addProductToCart_missing_product:
  assumes "getProductById w productId = None"
  shows "addProductToCart user productId qty w =
           (Inl \<lparr>statusCode = BAD_REQUEST, message = ''Product doesn't exist in database''\<rparr>, w)"
  using assms by (simp add: addProductToCart_def)

theorem addProductToCart_missing_product_witness:
  "addProductToCart demo_user ''p9'' 3 (demo_world\<lparr>carts := []\<rparr>) =
     (Inl \<lparr>statusCode = BAD_REQUEST, message = ''Product doesn't exist in database''\<rparr>,
      demo_world\<lparr>carts := []\<rparr>)
 \<and> addProductToCart demo_user ''p9'' 3 demo_world =
     (Inl \<lparr>statusCode = BAD_REQUEST, message = ''Product doesn't exist in database''\<rparr>,
      demo_world)
 \<and> addProductToCart demo_user ''p1'' 3 (demo_world\<lparr>products := [P2]\<rparr>) =
     (Inl \<lparr>statusCode = BAD_REQUEST, message = ''Product doesn't exist in database''\<rparr>,
      demo_world\<lparr>products := [P2]\<rparr>)"
proof -
  have a: "getProductById (demo_world\<lparr>carts := []\<rparr>) ''p9'' = None"
    by (simp add: getProductById_def)
  have b: "getProductById demo_world ''p9'' = None"
    by (simp add: getProductById_def)
  have c: "getProductById (demo_world\<lparr>products := [P2]\<rparr>) ''p1'' = None"
    by (simp add: getProductById_def)
  show ?thesis
    using addProductToCart_missing_product [OF a, of demo_user 3]
          addProductToCart_missing_product [OF b, of demo_user 3]
          addProductToCart_missing_product [OF c, of demo_user 3]
    by simp
qed

text \<open>
  C6. Calling \<open>addProductToCart\<close> twice with the same user, catalog product and quantity,
  starting where the product can be added (the user has no cart and creation yields a
  document, or the user's cart holds no item of that product): the first call succeeds and
  afterwards the user's cart holds exactly one item of that product, with the supplied
  quantity; the second call fails with the \<open>BAD_REQUEST\<close> error \<open>Product already in cart...\<close>
  and leaves the database, hence that item and its quantity, as the first call left it.
\<close>

theorem addProductToCart_twice:
  assumes "getProductById w productId = Some p"
    and "case Cart_findOne w (email user) of
           None \<Rightarrow> \<not> createFails w
         | Some cart \<Rightarrow> list_all (\<lambda>item. product_id (product item) \<noteq> product_id p) (cartItems cart)"
  shows "\<exists>cart1 w1.
           addProductToCart user productId qty w = (Inr cart1, w1)
         \<and> Cart_findOne w1 (email user) = Some cart1
         \<and> filter (\<lambda>item. product_id (product item) = product_id p) (cartItems cart1)
             = [\<lparr>product = p, quantity = qty\<rparr>]
         \<and> addProductToCart user productId qty w1 =
             (Inl \<lparr>statusCode = BAD_REQUEST,
                   message = ''Product already in cart. Use the cart sidebar to update or remove product from cart''\<rparr>, w1)"
proof -
  let ?it = "\<lparr>product = p, quantity = qty\<rparr>"
  let ?P = "\<lambda>item. product_id (product item) = product_id p"
  have second: "addProductToCart user productId qty w1 =
             (Inl \<lparr>statusCode = BAD_REQUEST,
                   message = ''Product already in cart. Use the cart sidebar to update or remove product from cart''\<rparr>, w1)"
    if "getProductById w1 productId = Some p" "Cart_findOne w1 (email user) = Some c1"
       "?it \<in> set (cartItems c1)" for w1 c1
  proof -
    have "findIndex ?P (cartItems c1) > - 1"
      using that(3) by (intro findIndex_found[of ?P ?it]) simp_all
    then show ?thesis using that(1,2) by (simp add: addProductToCart_def)
  qed
  show ?thesis
  proof (cases "Cart_findOne w (email user)")
    case None
    let ?c = "\<lparr>cart_id = fresh_id (carts w), cart_email = email user, cartItems = [?it]\<rparr>"
    let ?w1 = "w\<lparr>carts := carts w @ [?c]\<rparr>"
    from None assms(2) have ok: "\<not> createFails w" by simp
    have first: "addProductToCart user productId qty w = (Inr ?c, ?w1)"
      using None ok assms(1) by (simp add: addProductToCart_def Cart_create_def Let_def)
    have found: "Cart_findOne ?w1 (email user) = Some ?c"
      using None by (simp add: Cart_findOne_def find_snoc)
    have prod: "getProductById ?w1 productId = Some p"
      using assms(1) by (simp add: getProductById_def)
    have "addProductToCart user productId qty ?w1 =
             (Inl \<lparr>statusCode = BAD_REQUEST,
                   message = ''Product already in cart. Use the cart sidebar to update or remove product from cart''\<rparr>, ?w1)"
      using second[OF prod found] by simp
    with first found show ?thesis by simp
  next
    case (Some cart)
    let ?c = "cart\<lparr>cartItems := cartItems cart @ [?it]\<rparr>"
    let ?w1 = "Cart_save ?c w"
    from Some assms(2) have fresh: "\<forall>item\<in>set (cartItems cart). \<not> ?P item"
      by (simp add: list_all_iff)
    then have "findIndex ?P (cartItems cart) = - 1" by (simp add: findIndex_none)
    then have first: "addProductToCart user productId qty w = (Inr ?c, ?w1)"
      using Some assms(1) by (simp add: addProductToCart_def Let_def)
    have found: "Cart_findOne ?w1 (email user) = Some ?c"
      using Some by (intro Cart_findOne_save) simp_all
    have prod: "getProductById ?w1 productId = Some p"
      using assms(1) by (simp add: getProductById_def Cart_save_def)
    have one: "filter ?P (cartItems ?c) = [?it]"
      using fresh by (simp add: filter_empty_conv)
    have "addProductToCart user productId qty ?w1 =
             (Inl \<lparr>statusCode = BAD_REQUEST,
                   message = ''Product already in cart. Use the cart sidebar to update or remove product from cart''\<rparr>, ?w1)"
      using second[OF prod found] by simp
    with first found one show ?thesis by simp
  qed
qed

theorem addProductToCart_twice_witness:
  "addProductToCart demo_user ''p1'' 2 (demo_world\<lparr>carts := []\<rparr>) =
     (Inr \<lparr>cart_id = 1, cart_email = ''user@example.com'',
            cartItems = [\<lparr>product = P1, quantity = 2\<rparr>]\<rparr>,
      demo_world\<lparr>carts := [\<lparr>cart_id = 1, cart_email = ''user@example.com'',
            cartItems = [\<lparr>product = P1, quantity = 2\<rparr>]\<rparr>]\<rparr>)
 \<and> (\<exists>cart1 w1.
       addProductToCart demo_user ''p1'' 2 (demo_world\<lparr>carts := []\<rparr>) = (Inr cart1, w1)
     \<and> Cart_findOne w1 (email demo_user) = Some cart1
     \<and> filter (\<lambda>item. product_id (product item) = product_id P1) (cartItems cart1)
         = [\<lparr>product = P1, quantity = 2\<rparr>]
     \<and> addProductToCart demo_user ''p1'' 2 w1 =
         (Inl \<lparr>statusCode = BAD_REQUEST,
               message = ''Product already in cart. Use the cart sidebar to update or remove product from cart''\<rparr>, w1))"
proof -
  let ?w = "demo_world\<lparr>carts := []\<rparr>"
  have prod: "getProductById ?w ''p1'' = Some P1" by (simp add: getProductById_def)
  have start: "case Cart_findOne ?w (email demo_user) of
                 None \<Rightarrow> \<not> createFails ?w
               | Some cart \<Rightarrow> list_all (\<lambda>item. product_id (product item) \<noteq> product_id P1) (cartItems cart)"
    by (simp add: Cart_findOne_def)
  have run: "addProductToCart demo_user ''p1'' 2 ?w =
     (Inr \<lparr>cart_id = 1, cart_email = ''user@example.com'',
            cartItems = [\<lparr>product = P1, quantity = 2\<rparr>]\<rparr>,
      demo_world\<lparr>carts := [\<lparr>cart_id = 1, cart_email = ''user@example.com'',
            cartItems = [\<lparr>product = P1, quantity = 2\<rparr>]\<rparr>]\<rparr>)"
    by (simp add: addProductToCart_def getProductById_def Cart_findOne_def Cart_create_def
          fresh_id_def Let_def)
  from addProductToCart_twice [OF prod start, of 2] run show ?thesis by (rule conjI[rotated])
qed

section \<open>Updating a quantity\<close>

text \<open>
  C7. For every user with an existing cart and every catalog product of which the cart
  holds no item, \<open>updateProductInCart\<close> fails with the \<open>BAD_REQUEST\<close> error
  \<open>Product not in cart\<close> and the database, hence the cart, is unchanged.
\<close>

theorem updateProductInCart_not_in_cart:
  assumes "Cart_findOne w (email user) = Some cart"
    and "getProductById w productId = Some p"
    and "\<forall>item\<in>set (cartItems cart). product_id (product item) \<noteq> product_id p"
  shows "updateProductInCart user productId qty w =
           (Inl \<lparr>statusCode = BAD_REQUEST, message = ''Product not in cart''\<rparr>, w)"
proof -
  have "findIndex (\<lambda>item. product_id (product item) = product_id p) (cartItems cart) = - 1"
    using assms(3) by (simp add: findIndex_none)
  then show ?thesis
    using assms(1,2) by (simp add: updateProductInCart_def)
qed

theorem updateProductInCart_not_in_cart_witness:
  "updateProductInCart demo_user ''p2'' 7 (demo_world\<lparr>carts := [demo_cart\<lparr>cartItems := [\<lparr>product = P1, quantity = 2\<rparr>]\<rparr>]\<rparr>) =
     (Inl \<lparr>statusCode = BAD_REQUEST, message = ''Product not in cart''\<rparr>,
      demo_world\<lparr>carts := [demo_cart\<lparr>cartItems := [\<lparr>product = P1, quantity = 2\<rparr>]\<rparr>]\<rparr>)"
proof -
  let ?c = "demo_cart\<lparr>cartItems := [\<lparr>product = P1, quantity = 2\<rparr>]\<rparr>"
  let ?w = "demo_world\<lparr>carts := [?c]\<rparr>"
  have found: "Cart_findOne ?w (email demo_user) = Some ?c" by (simp add: Cart_findOne_def)
  have prod: "getProductById ?w ''p2'' = Some P2" by (simp add: getProductById_def)
  have absent: "\<forall>item\<in>set (cartItems ?c). product_id (product item) \<noteq> product_id P2" by simp
  from updateProductInCart_not_in_cart [OF found prod absent, of 7] show ?thesis by simp
qed

text \<open>
  C9. For every successful \<open>updateProductInCart\<close> on an existing cart: the cart's items
  split into the items before the first one of the product, that item, and the items after
  it; the returned and saved cart is the old one with only that item's quantity overwritten.
  Every other item, the number of items, their order, the matched item's product and the
  cart's email are unchanged.
\<close>

theorem updateProductInCart_frame:
  assumes "Cart_findOne w (email user) = Some cart"
    and "updateProductInCart user productId qty w = (Inr cart', w')"
  shows "\<exists>pre x post.
           cartItems cart = pre @ x # post
         \<and> (\<forall>y\<in>set pre. product_id (product y) \<noteq> productId)
         \<and> product_id (product x) = productId
         \<and> cart' = cart\<lparr>cartItems := pre @ x\<lparr>quantity := qty\<rparr> # post\<rparr>
         \<and> cart_email cart' = cart_email cart
         \<and> w' = Cart_save cart' w"
proof -
  from assms obtain p where p: "getProductById w productId = Some p"
    by (auto simp: updateProductInCart_def split: option.splits)
  then have pid: "product_id p = productId" by (rule getProductById_id)
  let ?P = "\<lambda>item. product_id (product item) = productId"
  from assms p pid have ne: "findIndex ?P (cartItems cart) \<noteq> - 1"
    by (auto simp: updateProductInCart_def Let_def split: if_splits)
  then have "\<exists>x\<in>set (cartItems cart). ?P x" by (simp add: findIndex_none)
  then obtain pre x post where
    sp: "cartItems cart = pre @ x # post" "\<forall>y\<in>set pre. \<not> ?P y" "?P x"
    using first_match_split[of "cartItems cart" ?P] by blast
  then have idx: "findIndex ?P (cartItems cart) = int (length pre)"
    by (simp add: findIndex_append)
  let ?c = "cart\<lparr>cartItems := pre @ x\<lparr>quantity := qty\<rparr> # post\<rparr>"
  have run: "updateProductInCart user productId qty w = (Inr ?c, Cart_save ?c w)"
    using assms(1) p pid idx sp(1) by (simp add: updateProductInCart_def Let_def)
  have "(Inr cart' :: ApiError + cart, w') = (Inr ?c, Cart_save ?c w)"
    by (rule trans[OF sym[OF assms(2)] run])
  then have c: "cart' = ?c" and w: "w' = Cart_save ?c w" by simp_all
  have "cart_email ?c = cart_email cart" by simp
  with sp c w show ?thesis by blast
qed

theorem updateProductInCart_frame_witness:
  "updateProductInCart demo_user ''p2'' 7 demo_world =
     (Inr (demo_cart\<lparr>cartItems := [\<lparr>product = P1, quantity = 2\<rparr>, \<lparr>product = P2, quantity = 7\<rparr>]\<rparr>),
      demo_world\<lparr>carts := [demo_cart\<lparr>cartItems :=
                  [\<lparr>product = P1, quantity = 2\<rparr>, \<lparr>product = P2, quantity = 7\<rparr>]\<rparr>]\<rparr>)
 \<and> (\<exists>pre x post.
       cartItems demo_cart = pre @ x # post
     \<and> (\<forall>y\<in>set pre. product_id (product y) \<noteq> ''p2'')
     \<and> product_id (product x) = ''p2''
     \<and> demo_cart\<lparr>cartItems := [\<lparr>product = P1, quantity = 2\<rparr>, \<lparr>product = P2, quantity = 7\<rparr>]\<rparr>
         = demo_cart\<lparr>cartItems := pre @ x\<lparr>quantity := 7\<rparr> # post\<rparr>)"
proof -
  let ?c' = "demo_cart\<lparr>cartItems := [\<lparr>product = P1, quantity = 2\<rparr>, \<lparr>product = P2, quantity = 7\<rparr>]\<rparr>"
  have found: "Cart_findOne demo_world (email demo_user) = Some demo_cart"
    by (simp add: Cart_findOne_def)
  have run: "updateProductInCart demo_user ''p2'' 7 demo_world =
               (Inr ?c', demo_world\<lparr>carts := [?c']\<rparr>)"
    by (simp add: updateProductInCart_def getProductById_def Cart_findOne_def Cart_save_def Let_def)
  from updateProductInCart_frame [OF found run] run show ?thesis by blast
qed

section \<open>Deleting a product\<close>

text \<open>
  C8. For every user whose cart holds exactly one item, \<open>deleteProductFromCart\<close> on that
  item's product succeeds and leaves the cart stored, found under the user's email, with an
  empty item sequence. In every case \<open>deleteProductFromCart\<close> leaves the cart collection with
  the same documents by \<open>_id\<close>, and a user who had a cart still has one.
\<close>

theorem deleteProductFromCart_last_item:
  "(Cart_findOne w (email user) = Some cart \<and> cartItems cart = [item] \<longrightarrow>
      deleteProductFromCart user (product_id (product item)) w =
        (Inr (cart\<lparr>cartItems := []\<rparr>), Cart_save (cart\<lparr>cartItems := []\<rparr>) w)
    \<and> Cart_findOne (Cart_save (cart\<lparr>cartItems := []\<rparr>) w) (email user)
        = Some (cart\<lparr>cartItems := []\<rparr>))
   \<and> map cart_id (carts (snd (deleteProductFromCart user' productId' w')))
       = map cart_id (carts w')
   \<and> (Cart_findOne w' (email user') \<noteq> None \<longrightarrow>
       Cart_findOne (snd (deleteProductFromCart user' productId' w')) (email user') \<noteq> None)"
proof (intro conjI impI)
  assume a: "Cart_findOne w (email user) = Some cart \<and> cartItems cart = [item]"
  then show "deleteProductFromCart user (product_id (product item)) w =
        (Inr (cart\<lparr>cartItems := []\<rparr>), Cart_save (cart\<lparr>cartItems := []\<rparr>) w)"
    by (simp add: deleteProductFromCart_def splice_def Let_def)
  from a show "Cart_findOne (Cart_save (cart\<lparr>cartItems := []\<rparr>) w) (email user)
        = Some (cart\<lparr>cartItems := []\<rparr>)"
    by (intro Cart_findOne_save) simp_all
next
  show "map cart_id (carts (snd (deleteProductFromCart user' productId' w')))
       = map cart_id (carts w')"
    by (simp add: deleteProductFromCart_def Cart_save_ids Let_def split: option.split)
next
  assume "Cart_findOne w' (email user') \<noteq> None"
  then obtain c where c: "Cart_findOne w' (email user') = Some c" by blast
  have "Cart_findOne (Cart_save (c\<lparr>cartItems := its\<rparr>) w') (email user') = Some (c\<lparr>cartItems := its\<rparr>)" for its
    using c by (intro Cart_findOne_save) simp_all
  with c show "Cart_findOne (snd (deleteProductFromCart user' productId' w')) (email user') \<noteq> None"
    by (simp add: deleteProductFromCart_def Let_def)
qed

theorem deleteProductFromCart_last_item_witness:
  "deleteProductFromCart demo_user ''p1''
     (demo_world\<lparr>carts := [demo_cart\<lparr>cartItems := [\<lparr>product = P1, quantity = 2\<rparr>]\<rparr>]\<rparr>) =
     (Inr (demo_cart\<lparr>cartItems := []\<rparr>), demo_world\<lparr>carts := [demo_cart\<lparr>cartItems := []\<rparr>]\<rparr>)
 \<and> Cart_findOne (demo_world\<lparr>carts := [demo_cart\<lparr>cartItems := []\<rparr>]\<rparr>) (email demo_user)
     = Some (demo_cart\<lparr>cartItems := []\<rparr>)
 \<and> map cart_id (carts (snd (deleteProductFromCart demo_user ''p2'' demo_world))) = [1]"
proof -
  let ?it = "\<lparr>product = P1, quantity = 2\<rparr>"
  let ?c = "demo_cart\<lparr>cartItems := [?it]\<rparr>"
  let ?w = "demo_world\<lparr>carts := [?c]\<rparr>"
  have found: "Cart_findOne ?w (email demo_user) = Some ?c" by (simp add: Cart_findOne_def)
  have single: "cartItems ?c = [?it]" by simp
  have saved: "Cart_save (?c\<lparr>cartItems := []\<rparr>) ?w = demo_world\<lparr>carts := [demo_cart\<lparr>cartItems := []\<rparr>]\<rparr>"
    by (simp add: Cart_save_def)
  from deleteProductFromCart_last_item [of ?w demo_user ?c ?it demo_user "''p2''" demo_world]
    found single saved
  show ?thesis by simp
qed

text \<open>
  C10. \<open>deleteProductFromCart\<close> does not read the product catalog: for every existing cart
  with an item whose stored product id is the given one, and for every content \<open>ps\<close> of the
  product collection (so also when the product is no longer in it), the call succeeds,
  removes exactly the first matching item, keeps the other items in their order, and
  returns the updated cart, which is the stored one.
\<close>

theorem deleteProductFromCart_ignores_catalog:
  assumes "Cart_findOne w (email user) = Some cart"
    and "item \<in> set (cartItems cart)"
    and "product_id (product item) = productId"
  shows "\<exists>pre x post.
           cartItems cart = pre @ x # post
         \<and> (\<forall>y\<in>set pre. product_id (product y) \<noteq> productId)
         \<and> product_id (product x) = productId
         \<and> deleteProductFromCart user productId (w\<lparr>products := ps\<rparr>) =
             (Inr (cart\<lparr>cartItems := pre @ post\<rparr>),
              Cart_save (cart\<lparr>cartItems := pre @ post\<rparr>) (w\<lparr>products := ps\<rparr>))
         \<and> Cart_findOne (Cart_save (cart\<lparr>cartItems := pre @ post\<rparr>) (w\<lparr>products := ps\<rparr>)) (email user)
             = Some (cart\<lparr>cartItems := pre @ post\<rparr>)"
proof -
  let ?P = "\<lambda>item. product_id (product item) = productId"
  let ?w = "w\<lparr>products := ps\<rparr>"
  from assms(2,3) have "\<exists>x\<in>set (cartItems cart). ?P x" by blast
  then obtain pre x post where
    sp: "cartItems cart = pre @ x # post" "\<forall>y\<in>set pre. \<not> ?P y" "?P x"
    using first_match_split[of "cartItems cart" ?P] by blast
  then have idx: "findIndex ?P (cartItems cart) = int (length pre)"
    by (simp add: findIndex_append)
  have found: "Cart_findOne ?w (email user) = Some cart"
    using assms(1) by (simp add: Cart_findOne_def)
  have del: "deleteProductFromCart user productId ?w =
             (Inr (cart\<lparr>cartItems := pre @ post\<rparr>),
              Cart_save (cart\<lparr>cartItems := pre @ post\<rparr>) ?w)"
    using found idx sp(1) by (simp add: deleteProductFromCart_def Let_def splice_def)
  have "Cart_findOne (Cart_save (cart\<lparr>cartItems := pre @ post\<rparr>) ?w) (email user)
             = Some (cart\<lparr>cartItems := pre @ post\<rparr>)"
    using found by (intro Cart_findOne_save) simp_all
  with del sp show ?thesis by blast
qed

theorem deleteProductFromCart_ignores_catalog_witness:
  "deleteProductFromCart demo_user ''p1''
     \<lparr>products = [],
      carts = [demo_cart\<lparr>cartItems := [\<lparr>product = P2, quantity = 1\<rparr>,
                 \<lparr>product = P1, quantity = 2\<rparr>, \<lparr>product = P1, quantity = 3\<rparr>]\<rparr>],
      createFails = False\<rparr> =
     (Inr (demo_cart\<lparr>cartItems := [\<lparr>product = P2, quantity = 1\<rparr>, \<lparr>product = P1, quantity = 3\<rparr>]\<rparr>),
      \<lparr>products = [],
       carts = [demo_cart\<lparr>cartItems := [\<lparr>product = P2, quantity = 1\<rparr>, \<lparr>product = P1, quantity = 3\<rparr>]\<rparr>],
       createFails = False\<rparr>)
 \<and> (\<exists>pre x post.
       [\<lparr>product = P2, quantity = 1\<rparr>, \<lparr>product = P1, quantity = 2\<rparr>, \<lparr>product = P1, quantity = 3\<rparr>]
         = pre @ x # post
     \<and> (\<forall>y\<in>set pre. product_id (product y) \<noteq> ''p1'')
     \<and> product_id (product x) = ''p1''
     \<and> [\<lparr>product = P2, quantity = 1\<rparr>, \<lparr>product = P1, quantity = 3\<rparr>] = pre @ post)"
proof -
  let ?its = "[\<lparr>product = P2, quantity = 1\<rparr>, \<lparr>product = P1, quantity = 2\<rparr>, \<lparr>product = P1, quantity = 3\<rparr>]"
  let ?c = "demo_cart\<lparr>cartItems := ?its\<rparr>"
  let ?w = "\<lparr>products = [P1, P2], carts = [?c], createFails = False\<rparr>"
  let ?c' = "demo_cart\<lparr>cartItems := [\<lparr>product = P2, quantity = 1\<rparr>, \<lparr>product = P1, quantity = 3\<rparr>]\<rparr>"
  have found: "Cart_findOne ?w (email demo_user) = Some ?c" by (simp add: Cart_findOne_def)
  have mem: "\<lparr>product = P1, quantity = 3\<rparr> \<in> set (cartItems ?c)" by simp
  have pid: "product_id (product \<lparr>product = P1, quantity = 3\<rparr>) = ''p1''" by simp
  have run: "deleteProductFromCart demo_user ''p1'' (?w\<lparr>products := []\<rparr>) =
               (Inr ?c', \<lparr>products = [], carts = [?c'], createFails = False\<rparr>)"
    by (simp add: deleteProductFromCart_def Cart_findOne_def Cart_save_def splice_def Let_def)
  from deleteProductFromCart_ignores_catalog [OF found mem pid, of "[]"]
  obtain pre x post where
    h: "cartItems ?c = pre @ x # post"
       "\<forall>y\<in>set pre. product_id (product y) \<noteq> ''p1''"
       "product_id (product x) = ''p1''"
       "deleteProductFromCart demo_user ''p1'' (?w\<lparr>products := []\<rparr>) =
          (Inr (?c\<lparr>cartItems := pre @ post\<rparr>), Cart_save (?c\<lparr>cartItems := pre @ post\<rparr>) (?w\<lparr>products := []\<rparr>))"
    by blast
  from h(4) run have "?c\<lparr>cartItems := pre @ post\<rparr> = ?c'" by simp
  then have "cartItems (?c\<lparr>cartItems := pre @ post\<rparr>) = cartItems ?c'" by (rule arg_cong)
  then have "[\<lparr>product = P2, quantity = 1\<rparr>, \<lparr>product = P1, quantity = 3\<rparr>] = pre @ post" by simp
  with h(1,2,3) run show ?thesis by auto
qed

end
